theory Spec2Isabelle
  imports Complex_Main
begin

section \<open>The game store of idlarz: data model\<close>

text \<open>
  The store (\<^verbatim>\<open>src/stores/gameStore.ts\<close>) keeps a grid of tiles, the resource holdings and
  the resource rates, and changes them by \<^verbatim>\<open>buyTile\<close>, \<^verbatim>\<open>upgradeCastle\<close> and \<^verbatim>\<open>tick\<close>.
  JavaScript numbers are modelled as \<^typ>\<open>real\<close> (amounts, rates, elapsed time) and, where the
  code uses them as array indices or levels, as \<^typ>\<open>nat\<close> and \<^typ>\<open>int\<close>; rounding of
  floating-point arithmetic, \<^verbatim>\<open>NaN\<close> and infinities are outside the model.

  The store builds its modifiers as the literal
  \<^verbatim>\<open>{ gold: 1.0, wood: 1.0, stone: 1.0, coal: 1.0, food: 1.0 }\<close> of type \<^verbatim>\<open>Resources\<close>, so the
  resource kinds of the store are these five (\<^verbatim>\<open>src/types/game.ts\<close> lists a sixth, \<^verbatim>\<open>xp\<close>,
  which the store neither initialises in its modifiers nor reads by name).
\<close>

datatype resource = Gold | Wood | Stone | Coal | Food

record Resources =
  gold :: real
  wood :: real
  stone :: real
  coal :: real
  food :: real

text \<open>\<^verbatim>\<open>r[resource]\<close> and \<^verbatim>\<open>r[resource] = v\<close> for a key computed at run time.\<close>

fun get_res :: "Resources \<Rightarrow> resource \<Rightarrow> real" where
  "get_res r Gold = gold r"
| "get_res r Wood = wood r"
| "get_res r Stone = stone r"
| "get_res r Coal = coal r"
| "get_res r Food = food r"

fun set_res :: "Resources \<Rightarrow> resource \<Rightarrow> real \<Rightarrow> Resources" where
  "set_res r Gold v = r\<lparr>gold := v\<rparr>"
| "set_res r Wood v = r\<lparr>wood := v\<rparr>"
| "set_res r Stone v = r\<lparr>stone := v\<rparr>"
| "set_res r Coal v = r\<lparr>coal := v\<rparr>"
| "set_res r Food v = r\<lparr>food := v\<rparr>"

text \<open>\<^verbatim>\<open>Object.entries\<close> and \<^verbatim>\<open>Object.keys\<close> of a full \<^verbatim>\<open>Resources\<close> object.\<close>

definition entries :: "Resources \<Rightarrow> (resource \<times> real) list" where
  "entries r = [(Gold, gold r), (Wood, wood r), (Stone, stone r), (Coal, coal r), (Food, food r)]"

definition keys :: "Resources \<Rightarrow> resource list" where
  "keys r = map fst (entries r)"

text \<open>
  The objects the store walks with \<^verbatim>\<open>Object.entries\<close> (a biome's modifiers, the castle's base
  rates, an upgrade cost) are kept as the list of their entries, in the order
  \<^verbatim>\<open>Object.entries\<close> lists them, so an object that names only some of the resources is
  covered. The keys of an object are distinct; where a proof needs it, it is a hypothesis.
\<close>

type_synonym amounts = "(resource \<times> real) list"

record Tile =
  biome :: "string option"
  isOwned :: bool
  level :: "nat option"
  upgradeCost :: "amounts option"

text \<open>
  \<^term>\<open>biome t = None\<close> is \<^verbatim>\<open>undefined\<close>, which \<^verbatim>\<open>buyTile\<close> stores when it indexes the list
  of available biomes out of range; \<^term>\<open>None\<close> in \<^term>\<open>level\<close> and \<^term>\<open>upgradeCost\<close> is an
  absent (or \<^verbatim>\<open>null\<close>) field.
\<close>

text \<open>
  An entry of the biome catalogue (\<^verbatim>\<open>BIOMES[tile.biome]\<close>); the store reads its
  \<^verbatim>\<open>resourceModifiers\<close> only. The state has a field of the same name, written
  \<open>resourceModifiers\<close> below; the field of the catalogue entry is \<open>BiomeInfo.resourceModifiers\<close>.
\<close>

record BiomeInfo =
  resourceModifiers :: amounts

record ResourceRates =
  base :: Resources
  modifiers :: Resources
  total :: Resources

record GameState =
  tiles :: "Tile list list"
  resources :: Resources
  resourceRates :: ResourceRates
  resourceModifiers :: Resources

subsection \<open>The configuration\<close>

text \<open>
  The store imports its constants from \<^verbatim>\<open>@/config/gameConfig\<close>, which is not among the source
  files: they are the fields of a configuration that every function takes as a parameter.
  The grid dimensions are natural numbers (\<^verbatim>\<open>Array(n)\<close> takes no other length).
\<close>

record CastleUpgrade =
  levelMultiplier :: real
  maxLevel :: nat
  upgradeCosts :: "amounts list"

record config =
  BIOMES :: "(string \<times> BiomeInfo) list"
  CASTLE_BASE_RATES :: amounts
  CASTLE_UPGRADE :: CastleUpgrade
  GRID_SIZE :: nat
  GRID_HEIGHT :: nat
  INITIAL_RESOURCES :: Resources
  BASE_GENERATION_RATES :: Resources
  TILE_PURCHASE_COST :: real

datatype error = TypeError

definition GRID_CENTER_X :: "config \<Rightarrow> nat" where
  "GRID_CENTER_X cfg = GRID_SIZE cfg div 2"

definition GRID_CENTER_Y :: "config \<Rightarrow> nat" where
  "GRID_CENTER_Y cfg = GRID_HEIGHT cfg div 2"

section \<open>The functions of the store\<close>

text \<open>\<^verbatim>\<open>xs[i]\<close>, \<^verbatim>\<open>undefined\<close> out of range.\<close>

definition nth_opt :: "'a list \<Rightarrow> int \<Rightarrow> 'a option" where
  "nth_opt xs i = (if 0 \<le> i \<and> i < int (length xs) then Some (xs ! nat i) else None)"

text \<open>
  \<^verbatim>\<open>tiles[y][x]\<close> followed by a property read: a \<^verbatim>\<open>TypeError\<close> when the row or the tile
  is \<^verbatim>\<open>undefined\<close>.
\<close>

definition tile_at :: "Tile list list \<Rightarrow> int \<Rightarrow> int \<Rightarrow> error + Tile" where
  "tile_at ts y x =
     (case nth_opt ts y of
        None \<Rightarrow> Inl TypeError
      | Some row \<Rightarrow> (case nth_opt row x of None \<Rightarrow> Inl TypeError | Some t \<Rightarrow> Inr t))"

subsection \<open>createInitialGrid\<close>

text \<open>
  The assignment \<^verbatim>\<open>grid[GRID_CENTER_Y][GRID_CENTER_X] = ...\<close> throws when the grid has no
  row (\<^verbatim>\<open>GRID_HEIGHT = 0\<close>); with \<^verbatim>\<open>GRID_SIZE = 0\<close> the centre column is \<^verbatim>\<open>0\<close>, the length
  of the empty row, and JavaScript appends the castle to it.
\<close>

definition emptyTile :: Tile where
  "emptyTile = \<lparr>biome = Some ''empty'', isOwned = False, level = None, upgradeCost = None\<rparr>"

definition castleTile :: "config \<Rightarrow> Tile" where
  "castleTile cfg =
     \<lparr>biome = Some ''castle'', isOwned = True, level = Some 1,
      upgradeCost = nth_opt (upgradeCosts (CASTLE_UPGRADE cfg)) 0\<rparr>"

definition createInitialGrid :: "config \<Rightarrow> error + Tile list list" where
  "createInitialGrid cfg =
     (let grid = replicate (GRID_HEIGHT cfg) (replicate (GRID_SIZE cfg) emptyTile);
          cy = GRID_CENTER_Y cfg; cx = GRID_CENTER_X cfg
      in if cy < length grid
         then Inr (grid[cy := (if cx < length (grid ! cy)
                               then (grid ! cy)[cx := castleTile cfg]
                               else grid ! cy @ [castleTile cfg])])
         else Inl TypeError)"

subsection \<open>calculateResourceRates\<close>

text \<open>
  The castle found by the first scan adds \<^verbatim>\<open>rate * multiplier\<close> to \<^verbatim>\<open>base\<close> for each entry
  of \<^verbatim>\<open>CASTLE_BASE_RATES\<close>, with \<^verbatim>\<open>level = tile.level || 1\<close> and
  \<^verbatim>\<open>multiplier = Math.pow(levelMultiplier, level - 1)\<close>.
\<close>

definition applyCastle :: "config \<Rightarrow> Tile \<Rightarrow> Resources \<Rightarrow> Resources" where
  "applyCastle cfg tile b =
     (let lvl = (case level tile of None \<Rightarrow> 1 | Some l \<Rightarrow> if l = 0 then 1 else l);
          multiplier = levelMultiplier (CASTLE_UPGRADE cfg) ^ (lvl - 1)
      in fold (\<lambda>(r, rate) b. set_res b r (get_res b r + rate * multiplier))
           (CASTLE_BASE_RATES cfg) b)"

text \<open>
  The inner loop over \<^verbatim>\<open>x\<close>: the \<^verbatim>\<open>break\<close> leaves this loop only, so the result goes back
  to the loop over \<^verbatim>\<open>y\<close>, which goes on with the next row.
\<close>

fun castleRow :: "config \<Rightarrow> Tile list list \<Rightarrow> nat \<Rightarrow> nat list \<Rightarrow> Resources \<Rightarrow> error + Resources" where
  "castleRow cfg ts y [] b = Inr b"
| "castleRow cfg ts y (x # xs) b =
     (case tile_at ts (int y) (int x) of
        Inl e \<Rightarrow> Inl e
      | Inr tile \<Rightarrow>
          if isOwned tile \<and> biome tile = Some ''castle''
          then Inr (applyCastle cfg tile b)
          else castleRow cfg ts y xs b)"

fun castleScan :: "config \<Rightarrow> Tile list list \<Rightarrow> nat list \<Rightarrow> Resources \<Rightarrow> error + Resources" where
  "castleScan cfg ts [] b = Inr b"
| "castleScan cfg ts (y # ys) b =
     (case castleRow cfg ts y [0..<GRID_SIZE cfg] b of
        Inl e \<Rightarrow> Inl e
      | Inr b' \<Rightarrow> castleScan cfg ts ys b')"

text \<open>
  \<^verbatim>\<open>BIOMES[tile.biome]\<close>: the key \<^verbatim>\<open>undefined\<close> is looked up as the string
  \<^verbatim>\<open>"undefined"\<close>; reading \<^verbatim>\<open>resourceModifiers\<close> of a missing entry throws.
\<close>

definition biomeKey :: "string option \<Rightarrow> string" where
  "biomeKey b = (case b of None \<Rightarrow> ''undefined'' | Some k \<Rightarrow> k)"

definition applyModifiers :: "BiomeInfo \<Rightarrow> Resources \<Rightarrow> Resources" where
  "applyModifiers info m =
     fold (\<lambda>(r, modifier) m. set_res m r (get_res m r * modifier)) (BiomeInfo.resourceModifiers info) m"

fun modifiersRow :: "config \<Rightarrow> Tile list list \<Rightarrow> nat \<Rightarrow> nat list \<Rightarrow> Resources \<Rightarrow> error + Resources" where
  "modifiersRow cfg ts y [] m = Inr m"
| "modifiersRow cfg ts y (x # xs) m =
     (case tile_at ts (int y) (int x) of
        Inl e \<Rightarrow> Inl e
      | Inr tile \<Rightarrow>
          if isOwned tile
          then (case map_of (BIOMES cfg) (biomeKey (biome tile)) of
                  None \<Rightarrow> Inl TypeError
                | Some info \<Rightarrow> modifiersRow cfg ts y xs (applyModifiers info m))
          else modifiersRow cfg ts y xs m)"

fun modifiersScan :: "config \<Rightarrow> Tile list list \<Rightarrow> nat list \<Rightarrow> Resources \<Rightarrow> error + Resources" where
  "modifiersScan cfg ts [] m = Inr m"
| "modifiersScan cfg ts (y # ys) m =
     (case modifiersRow cfg ts y [0..<GRID_SIZE cfg] m of
        Inl e \<Rightarrow> Inl e
      | Inr m' \<Rightarrow> modifiersScan cfg ts ys m')"

definition unitModifiers :: Resources where
  "unitModifiers = \<lparr>gold = 1, wood = 1, stone = 1, coal = 1, food = 1\<rparr>"

definition calculateResourceRates :: "config \<Rightarrow> Tile list list \<Rightarrow> error + ResourceRates" where
  "calculateResourceRates cfg ts =
     (case castleScan cfg ts [0..<GRID_HEIGHT cfg] (BASE_GENERATION_RATES cfg) of
        Inl e \<Rightarrow> Inl e
      | Inr b \<Rightarrow>
          (case modifiersScan cfg ts [0..<GRID_HEIGHT cfg] unitModifiers of
             Inl e \<Rightarrow> Inl e
           | Inr m \<Rightarrow>
               Inr \<lparr>base = b, modifiers = m,
                    total = fold (\<lambda>r t. set_res t r (get_res b r * get_res m r))
                              (keys (BASE_GENERATION_RATES cfg)) (BASE_GENERATION_RATES cfg)\<rparr>))"

subsection \<open>isAdjacentToOwned and canAffordCost\<close>

text \<open>
  \<^verbatim>\<open>directions.some(...)\<close> stops at the first direction whose neighbour is inside the grid
  and owned; \<^verbatim>\<open>&&\<close> reads the tile only after the four bound checks.
\<close>

fun someDirection :: "config \<Rightarrow> Tile list list \<Rightarrow> int \<Rightarrow> int \<Rightarrow> (int \<times> int) list \<Rightarrow> error + bool" where
  "someDirection cfg ts x y [] = Inr False"
| "someDirection cfg ts x y ((dx, dy) # ds) =
     (let newX = x + dx; newY = y + dy
      in if newX \<ge> 0 \<and> newX < int (GRID_SIZE cfg) \<and> newY \<ge> 0 \<and> newY < int (GRID_HEIGHT cfg)
         then (case tile_at ts newY newX of
                 Inl e \<Rightarrow> Inl e
               | Inr t \<Rightarrow> if isOwned t then Inr True else someDirection cfg ts x y ds)
         else someDirection cfg ts x y ds)"

definition directions :: "(int \<times> int) list" where
  "directions = [(-1, 0), (1, 0), (0, -1), (0, 1)]"

definition isAdjacentToOwned :: "config \<Rightarrow> Tile list list \<Rightarrow> int \<Rightarrow> int \<Rightarrow> error + bool" where
  "isAdjacentToOwned cfg ts x y = someDirection cfg ts x y directions"

datatype cost = Flat real | Bundle amounts

fun canAffordCost :: "Resources \<Rightarrow> cost \<Rightarrow> bool" where
  "canAffordCost rs (Flat c) = (gold rs \<ge> c)"
| "canAffordCost rs (Bundle c) = list_all (\<lambda>(r, amount). get_res rs r \<ge> amount) c"

subsection \<open>The store: initial state, buyTile, upgradeCastle, tick\<close>

definition initialState :: "config \<Rightarrow> error + GameState" where
  "initialState cfg =
     (case createInitialGrid cfg of
        Inl e \<Rightarrow> Inl e
      | Inr initialGrid \<Rightarrow>
          (case calculateResourceRates cfg initialGrid of
             Inl e \<Rightarrow> Inl e
           | Inr initialRates \<Rightarrow>
               Inr \<lparr>tiles = initialGrid, resources = INITIAL_RESOURCES cfg,
                    resourceRates = initialRates,
                    resourceModifiers = modifiers initialRates\<rparr>))"

text \<open>
  \<^verbatim>\<open>buyTile(x, y)\<close>, with the value \<^verbatim>\<open>rnd\<close> of \<^verbatim>\<open>Math.random()\<close> as a parameter. The result
  is the committed state and the returned flag; an exception leaves the store as it was.
\<close>

definition availableBiomes :: "config \<Rightarrow> string list" where
  "availableBiomes cfg =
     filter (\<lambda>b. b \<notin> set [''empty'', ''castle'', ''grounds'']) (map fst (BIOMES cfg))"

definition setTile :: "Tile list list \<Rightarrow> nat \<Rightarrow> nat \<Rightarrow> Tile \<Rightarrow> Tile list list" where
  "setTile ts y x t = ts[y := (ts ! y)[x := t]]"

definition buyTile :: "config \<Rightarrow> real \<Rightarrow> int \<Rightarrow> int \<Rightarrow> GameState \<Rightarrow> error + (GameState \<times> bool)" where
  "buyTile cfg rnd x y state =
     (case tile_at (tiles state) y x of
        Inl e \<Rightarrow> Inl e
      | Inr tile \<Rightarrow>
          if isOwned tile then Inr (state, False)
          else (case isAdjacentToOwned cfg (tiles state) x y of
                  Inl e \<Rightarrow> Inl e
                | Inr adjacent \<Rightarrow>
                    if \<not> adjacent then Inr (state, False)
                    else if gold (resources state) < TILE_PURCHASE_COST cfg then Inr (state, False)
                    else
                      (let randomBiome = nth_opt (availableBiomes cfg)
                                           \<lfloor>rnd * real (length (availableBiomes cfg))\<rfloor>;
                           newTiles = setTile (tiles state) (nat y) (nat x)
                                        \<lparr>biome = randomBiome, isOwned = True,
                                         level = None, upgradeCost = None\<rparr>
                       in case calculateResourceRates cfg newTiles of
                            Inl e \<Rightarrow> Inl e
                          | Inr newRates \<Rightarrow>
                              Inr (state\<lparr>tiles := newTiles,
                                     resources := (resources state)
                                       \<lparr>gold := gold (resources state) - TILE_PURCHASE_COST cfg\<rparr>,
                                     resourceRates := newRates,
                                     resourceModifiers := modifiers newRates\<rparr>, True))))"

text \<open>
  The search of \<^verbatim>\<open>upgradeCastle\<close>: the first tile with the castle biome, rows from the top
  and each row from the left; here the outer loop stops too (\<^verbatim>\<open>if (castle) break\<close>).
\<close>

fun findCastleRow :: "Tile list list \<Rightarrow> nat \<Rightarrow> nat list \<Rightarrow> error + (Tile \<times> nat \<times> nat) option" where
  "findCastleRow ts y [] = Inr None"
| "findCastleRow ts y (x # xs) =
     (case tile_at ts (int y) (int x) of
        Inl e \<Rightarrow> Inl e
      | Inr t \<Rightarrow> if biome t = Some ''castle'' then Inr (Some (t, x, y)) else findCastleRow ts y xs)"

fun findCastle :: "config \<Rightarrow> Tile list list \<Rightarrow> nat list \<Rightarrow> error + (Tile \<times> nat \<times> nat) option" where
  "findCastle cfg ts [] = Inr None"
| "findCastle cfg ts (y # ys) =
     (case findCastleRow ts y [0..<GRID_SIZE cfg] of
        Inl e \<Rightarrow> Inl e
      | Inr (Some c) \<Rightarrow> Inr (Some c)
      | Inr None \<Rightarrow> findCastle cfg ts ys)"

definition deductCost :: "amounts \<Rightarrow> Resources \<Rightarrow> Resources" where
  "deductCost c rs = fold (\<lambda>(r, amount) nr. set_res nr r (get_res nr r - amount)) c rs"

definition upgradeCastle :: "config \<Rightarrow> GameState \<Rightarrow> error + (GameState \<times> bool)" where
  "upgradeCastle cfg state =
     (case findCastle cfg (tiles state) [0..<GRID_HEIGHT cfg] of
        Inl e \<Rightarrow> Inl e
      | Inr None \<Rightarrow> Inr (state, False)
      | Inr (Some (castle, castleX, castleY)) \<Rightarrow>
          (case upgradeCost castle of
             None \<Rightarrow> Inr (state, False)
           | Some c \<Rightarrow>
               (case level castle of
                  None \<Rightarrow> Inr (state, False)
                | Some lvl \<Rightarrow>
                    if lvl = 0 then Inr (state, False)
                    else if lvl \<ge> maxLevel (CASTLE_UPGRADE cfg) then Inr (state, False)
                    else if \<not> canAffordCost (resources state) (Bundle c) then Inr (state, False)
                    else
                      (let newTiles = setTile (tiles state) castleY castleX
                                        (castle\<lparr>level := Some (lvl + 1),
                                           upgradeCost :=
                                             nth_opt (upgradeCosts (CASTLE_UPGRADE cfg)) (int lvl)\<rparr>);
                           newResources = deductCost c (resources state)
                       in case calculateResourceRates cfg newTiles of
                            Inl e \<Rightarrow> Inl e
                          | Inr newRates \<Rightarrow>
                              Inr (state\<lparr>tiles := newTiles, resources := newResources,
                                     resourceRates := newRates,
                                     resourceModifiers := modifiers newRates\<rparr>, True)))))"

definition tick :: "real \<Rightarrow> GameState \<Rightarrow> GameState" where
  "tick deltaTime state =
     (let secondsElapsed = deltaTime / 1000;
          newResources = fold (\<lambda>(r, rate) nr. set_res nr r (get_res nr r + rate * secondsElapsed))
                           (entries (total (resourceRates state))) (resources state)
      in state\<lparr>resources := newResources\<rparr>)"

subsection \<open>Reachable states\<close>

text \<open>
  The states of the store: the initial one, and every state an operation commits.
  \<^verbatim>\<open>Math.random()\<close> returns a number in \<open>[0, 1)\<close>.
\<close>

inductive reachable :: "config \<Rightarrow> GameState \<Rightarrow> bool" for cfg :: config where
  r_init: "initialState cfg = Inr s \<Longrightarrow> reachable cfg s"
| r_buy: "reachable cfg s \<Longrightarrow> 0 \<le> rnd \<Longrightarrow> rnd < 1 \<Longrightarrow> buyTile cfg rnd x y s = Inr (s', ok)
          \<Longrightarrow> reachable cfg s'"
| r_upgrade: "reachable cfg s \<Longrightarrow> upgradeCastle cfg s = Inr (s', ok) \<Longrightarrow> reachable cfg s'"
| r_tick: "reachable cfg s \<Longrightarrow> reachable cfg (tick dt s)"

section \<open>Predicates of the specification and of the proofs\<close>

text \<open>
  Adjacency as the specification words it: one of the four neighbours (left, right, up, down; no
  diagonal) lies inside the grid and is owned.
\<close>

definition ownedNeighbour :: "config \<Rightarrow> Tile list list \<Rightarrow> int \<Rightarrow> int \<Rightarrow> bool" where
  "ownedNeighbour cfg ts x y \<longleftrightarrow>
     (\<exists>(nx, ny) \<in> {(x - 1, y), (x + 1, y), (x, y - 1), (x, y + 1)}.
        0 \<le> nx \<and> nx < int (GRID_SIZE cfg) \<and> 0 \<le> ny \<and> ny < int (GRID_HEIGHT cfg) \<and>
        isOwned (ts ! nat ny ! nat nx))"

text \<open>
  A cell the scans of \<^verbatim>\<open>calculateResourceRates\<close> read without an exception: it exists, and
  if it is owned, its biome is an entry of the catalogue. A grid is scannable when every cell
  inside the configured bounds is.
\<close>

definition cellOk :: "config \<Rightarrow> Tile list list \<Rightarrow> nat \<Rightarrow> nat \<Rightarrow> bool" where
  "cellOk cfg ts y x \<longleftrightarrow>
     y < length ts \<and> x < length (ts ! y) \<and>
     (isOwned (ts ! y ! x) \<longrightarrow> map_of (BIOMES cfg) (biomeKey (biome (ts ! y ! x))) \<noteq> None)"

definition scannable :: "config \<Rightarrow> Tile list list \<Rightarrow> bool" where
  "scannable cfg ts \<longleftrightarrow> (\<forall>y < GRID_HEIGHT cfg. \<forall>x < GRID_SIZE cfg. cellOk cfg ts y x)"

text \<open>The castle is the tile at the centre, it is owned, and no other tile is a castle.\<close>

definition castleInv :: "config \<Rightarrow> Tile list list \<Rightarrow> bool" where
  "castleInv cfg ts \<longleftrightarrow>
     GRID_CENTER_Y cfg < length ts \<and> GRID_CENTER_X cfg < length (ts ! GRID_CENTER_Y cfg) \<and>
     isOwned (ts ! GRID_CENTER_Y cfg ! GRID_CENTER_X cfg) \<and>
     (\<forall>y < length ts. \<forall>x < length (ts ! y).
        biome (ts ! y ! x) = Some ''castle'' \<longleftrightarrow> x = GRID_CENTER_X cfg \<and> y = GRID_CENTER_Y cfg)"

subsection \<open>A concrete configuration\<close>

text \<open>
  The values of \<^verbatim>\<open>gameConfig\<close> are parameters of the model. This small configuration, a grid
  of two by two tiles, is an input on which the functions are evaluated: \<open>ex_s0\<close> is its initial
  state, \<open>ex_s1\<close> the state after one castle upgrade, and \<open>ex_s2\<close> the state after buying
  the tile above the castle with \<^verbatim>\<open>Math.random() = 0.5\<close>.
\<close>

definition ex_cfg :: config where
  "ex_cfg =
     \<lparr>BIOMES = [(''empty'', \<lparr>BiomeInfo.resourceModifiers = []\<rparr>),
                (''castle'', \<lparr>BiomeInfo.resourceModifiers = [(Gold, 2)]\<rparr>),
                (''grounds'', \<lparr>BiomeInfo.resourceModifiers = []\<rparr>),
                (''forest'', \<lparr>BiomeInfo.resourceModifiers = [(Wood, 3)]\<rparr>),
                (''mountain'', \<lparr>BiomeInfo.resourceModifiers = [(Stone, 2), (Food, 1 / 2)]\<rparr>)],
      CASTLE_BASE_RATES = [(Gold, 1), (Wood, 1 / 2)],
      CASTLE_UPGRADE = \<lparr>levelMultiplier = 2, maxLevel = 3,
                         upgradeCosts = [[(Gold, 50), (Wood, 10)], [(Gold, 500), (Stone, 100)]]\<rparr>,
      GRID_SIZE = 2, GRID_HEIGHT = 2,
      INITIAL_RESOURCES = \<lparr>gold = 200, wood = 20, stone = 0, coal = 0, food = 0\<rparr>,
      BASE_GENERATION_RATES = \<lparr>gold = 1, wood = 0, stone = 0, coal = 0, food = 0\<rparr>,
      TILE_PURCHASE_COST = 100\<rparr>"

definition ex_s0 :: GameState where
  "ex_s0 =
     \<lparr>tiles = [[emptyTile, emptyTile], [emptyTile, castleTile ex_cfg]],
      resources = \<lparr>gold = 200, wood = 20, stone = 0, coal = 0, food = 0\<rparr>,
      resourceRates =
        \<lparr>base = \<lparr>gold = 2, wood = 1 / 2, stone = 0, coal = 0, food = 0\<rparr>,
         modifiers = \<lparr>gold = 2, wood = 1, stone = 1, coal = 1, food = 1\<rparr>,
         total = \<lparr>gold = 4, wood = 1 / 2, stone = 0, coal = 0, food = 0\<rparr>\<rparr>,
      resourceModifiers = \<lparr>gold = 2, wood = 1, stone = 1, coal = 1, food = 1\<rparr>\<rparr>"

definition ex_s1 :: GameState where
  "ex_s1 =
     \<lparr>tiles = [[emptyTile, emptyTile],
               [emptyTile, \<lparr>biome = Some ''castle'', isOwned = True, level = Some 2,
                            upgradeCost = Some [(Gold, 500), (Stone, 100)]\<rparr>]],
      resources = \<lparr>gold = 150, wood = 10, stone = 0, coal = 0, food = 0\<rparr>,
      resourceRates =
        \<lparr>base = \<lparr>gold = 3, wood = 1, stone = 0, coal = 0, food = 0\<rparr>,
         modifiers = \<lparr>gold = 2, wood = 1, stone = 1, coal = 1, food = 1\<rparr>,
         total = \<lparr>gold = 6, wood = 1, stone = 0, coal = 0, food = 0\<rparr>\<rparr>,
      resourceModifiers = \<lparr>gold = 2, wood = 1, stone = 1, coal = 1, food = 1\<rparr>\<rparr>"

definition ex_s2 :: GameState where
  "ex_s2 =
     \<lparr>tiles = [[emptyTile, \<lparr>biome = Some ''mountain'', isOwned = True, level = None,
                            upgradeCost = None\<rparr>],
               [emptyTile, castleTile ex_cfg]],
      resources = \<lparr>gold = 100, wood = 20, stone = 0, coal = 0, food = 0\<rparr>,
      resourceRates =
        \<lparr>base = \<lparr>gold = 2, wood = 1 / 2, stone = 0, coal = 0, food = 0\<rparr>,
         modifiers = \<lparr>gold = 2, wood = 1, stone = 2, coal = 1, food = 1 / 2\<rparr>,
         total = \<lparr>gold = 4, wood = 1 / 2, stone = 0, coal = 0, food = 0\<rparr>\<rparr>,
      resourceModifiers = \<lparr>gold = 2, wood = 1, stone = 2, coal = 1, food = 1 / 2\<rparr>\<rparr>"





section \<open>Lemmas\<close>

subsection \<open>Records, grids and the results of the operations\<close>

lemma get_set_res: "get_res (set_res rs k v) k' = (if k' = k then v else get_res rs k')"
  by (cases k; cases k'; simp)

lemma total_of_calculate:
  assumes "calculateResourceRates cfg ts = Inr rr"
  shows "get_res (total rr) r = get_res (base rr) r * get_res (modifiers rr) r"
proof -
  from assms obtain b m where
    rr: "rr = \<lparr>base = b, modifiers = m,
              total = fold (\<lambda>r t. set_res t r (get_res b r * get_res m r))
                        (keys (BASE_GENERATION_RATES cfg)) (BASE_GENERATION_RATES cfg)\<rparr>"
    by (auto simp: calculateResourceRates_def split: sum.splits)
  show ?thesis
    by (cases r) (simp_all add: rr keys_def entries_def)
qed

lemma buyTile_cases:
  assumes "buyTile cfg rnd x y s = Inr (s', ok)"
  shows "(\<not> ok \<and> s' = s) \<or>
         (ok \<and> (\<exists>t rb newRates.
            tile_at (tiles s) y x = Inr t \<and> \<not> isOwned t \<and>
            isAdjacentToOwned cfg (tiles s) x y = Inr True \<and>
            \<not> gold (resources s) < TILE_PURCHASE_COST cfg \<and>
            rb = nth_opt (availableBiomes cfg) \<lfloor>rnd * real (length (availableBiomes cfg))\<rfloor> \<and>
            calculateResourceRates cfg
              (setTile (tiles s) (nat y) (nat x)
                 \<lparr>biome = rb, isOwned = True, level = None, upgradeCost = None\<rparr>) = Inr newRates \<and>
            s' = s\<lparr>tiles := setTile (tiles s) (nat y) (nat x)
                               \<lparr>biome = rb, isOwned = True, level = None, upgradeCost = None\<rparr>,
                    resources := (resources s)\<lparr>gold := gold (resources s) - TILE_PURCHASE_COST cfg\<rparr>,
                    resourceRates := newRates,
                    resourceModifiers := modifiers newRates\<rparr>))"
  using assms
  by (auto simp: buyTile_def Let_def split: sum.splits if_splits)

lemma upgradeCastle_cases:
  assumes "upgradeCastle cfg s = Inr (s', ok)"
  shows "(\<not> ok \<and> s' = s) \<or>
         (ok \<and> (\<exists>castle castleX castleY c lvl newRates.
            findCastle cfg (tiles s) [0..<GRID_HEIGHT cfg] = Inr (Some (castle, castleX, castleY)) \<and>
            upgradeCost castle = Some c \<and> level castle = Some lvl \<and> lvl \<noteq> 0 \<and>
            lvl < maxLevel (CASTLE_UPGRADE cfg) \<and>
            canAffordCost (resources s) (Bundle c) \<and>
            calculateResourceRates cfg
              (setTile (tiles s) castleY castleX
                 (castle\<lparr>level := Some (lvl + 1),
                    upgradeCost := nth_opt (upgradeCosts (CASTLE_UPGRADE cfg)) (int lvl)\<rparr>)) = Inr newRates \<and>
            s' = s\<lparr>tiles := setTile (tiles s) castleY castleX
                 (castle\<lparr>level := Some (lvl + 1),
                    upgradeCost := nth_opt (upgradeCosts (CASTLE_UPGRADE cfg)) (int lvl)\<rparr>),
                    resources := deductCost c (resources s),
                    resourceRates := newRates,
                    resourceModifiers := modifiers newRates\<rparr>))"
  using assms
  by (auto simp: upgradeCastle_def Let_def split: sum.splits if_splits option.splits prod.splits)

lemma tick_fields:
  "tiles (tick dt s) = tiles s" "resourceRates (tick dt s) = resourceRates s"
  "resourceModifiers (tick dt s) = resourceModifiers s"
  by (simp_all add: tick_def Let_def)

lemma reachable_rates:
  "reachable cfg s \<Longrightarrow> calculateResourceRates cfg (tiles s) = Inr (resourceRates s)"
proof (induction rule: reachable.induct)
  case (r_init s)
  then show ?case by (auto simp: initialState_def split: sum.splits)
next
  case (r_buy s rnd x y s' ok)
  from buyTile_cases[OF r_buy.hyps(4)] r_buy.IH show ?case by auto
next
  case (r_upgrade s s' ok)
  from upgradeCastle_cases[OF r_upgrade.hyps(2)] r_upgrade.IH show ?case by auto
next
  case (r_tick s dt)
  then show ?case by (simp add: tick_fields)
qed

lemma tick_resources:
  "get_res (resources (tick dt s)) r = get_res (resources s) r + get_res (total (resourceRates s)) r * (dt / 1000)"
  by (cases r) (simp_all add: tick_def Let_def entries_def)

lemma tile_at_nat:
  "tile_at ts (int y) (int x) =
     (if y < length ts \<and> x < length (ts ! y) then Inr (ts ! y ! x) else Inl TypeError)"
  by (simp add: tile_at_def nth_opt_def)

lemma tile_at_Inr:
  "tile_at ts y x = Inr t \<longleftrightarrow>
     0 \<le> y \<and> 0 \<le> x \<and> nat y < length ts \<and> nat x < length (ts ! nat y) \<and> t = ts ! nat y ! nat x"
  by (auto simp: tile_at_def nth_opt_def split: option.splits if_splits)

lemma length_setTile [simp]: "length (setTile ts y x t) = length ts"
  by (simp add: setTile_def)

lemma length_setTile_row [simp]: "length (setTile ts y x t ! y') = length (ts ! y')"
  by (cases "y' = y"; cases "y < length ts"; simp add: setTile_def list_update_beyond)

lemma nth_setTile:
  "setTile ts y x t ! y' ! x' =
     (if y' = y \<and> x' = x \<and> y < length ts \<and> x < length (ts ! y) then t else ts ! y' ! x')"
  by (cases "y' = y"; cases "y < length ts"; cases "x' = x"; cases "x < length (ts ! y)";
      simp add: setTile_def list_update_beyond)

lemma modifiersRow_Inr_iff:
  "(\<exists>m'. modifiersRow cfg ts y xs m = Inr m') \<longleftrightarrow> (\<forall>x \<in> set xs. cellOk cfg ts y x)"
  by (induction xs arbitrary: m) (auto simp: tile_at_nat cellOk_def split: option.splits)

lemma modifiersScan_Inr_iff:
  "(\<exists>m'. modifiersScan cfg ts ys m = Inr m') \<longleftrightarrow>
     (\<forall>y \<in> set ys. \<forall>x < GRID_SIZE cfg. cellOk cfg ts y x)"
proof (induction ys arbitrary: m)
  case Nil
  then show ?case by simp
next
  case (Cons y ys)
  show ?case
  proof (cases "modifiersRow cfg ts y [0..<GRID_SIZE cfg] m")
    case (Inl e)
    with modifiersRow_Inr_iff[of cfg ts y "[0..<GRID_SIZE cfg]" m] show ?thesis by auto
  next
    case (Inr m1)
    with modifiersRow_Inr_iff[of cfg ts y "[0..<GRID_SIZE cfg]" m] Cons.IH[of m1]
    show ?thesis by auto
  qed
qed

lemma castleRow_Inr:
  "\<forall>x \<in> set xs. cellOk cfg ts y x \<Longrightarrow> \<exists>b'. castleRow cfg ts y xs b = Inr b'"
  by (induction xs arbitrary: b) (auto simp: tile_at_nat cellOk_def)

lemma castleScan_Inr:
  "\<forall>y \<in> set ys. \<forall>x < GRID_SIZE cfg. cellOk cfg ts y x \<Longrightarrow> \<exists>b'. castleScan cfg ts ys b = Inr b'"
proof (induction ys arbitrary: b)
  case Nil
  then show ?case by simp
next
  case (Cons y ys)
  then have "\<forall>x \<in> set [0..<GRID_SIZE cfg]. cellOk cfg ts y x" by simp
  from castleRow_Inr[OF this] obtain b1 where "castleRow cfg ts y [0..<GRID_SIZE cfg] b = Inr b1"
    by blast
  with Cons.IH[of b1] Cons.prems show ?case by auto
qed

lemma calculate_Inr_iff:
  "(\<exists>rr. calculateResourceRates cfg ts = Inr rr) \<longleftrightarrow> scannable cfg ts"
proof
  assume "\<exists>rr. calculateResourceRates cfg ts = Inr rr"
  then obtain m where "modifiersScan cfg ts [0..<GRID_HEIGHT cfg] unitModifiers = Inr m"
    by (auto simp: calculateResourceRates_def split: sum.splits)
  with modifiersScan_Inr_iff[of cfg ts "[0..<GRID_HEIGHT cfg]" unitModifiers]
  show "scannable cfg ts" by (auto simp: scannable_def)
next
  assume sc: "scannable cfg ts"
  then have ok: "\<forall>y \<in> set [0..<GRID_HEIGHT cfg]. \<forall>x < GRID_SIZE cfg. cellOk cfg ts y x"
    by (simp add: scannable_def)
  from castleScan_Inr[OF ok] obtain b where
    "castleScan cfg ts [0..<GRID_HEIGHT cfg] (BASE_GENERATION_RATES cfg) = Inr b" by blast
  moreover from ok modifiersScan_Inr_iff[of cfg ts "[0..<GRID_HEIGHT cfg]" unitModifiers]
  obtain m where "modifiersScan cfg ts [0..<GRID_HEIGHT cfg] unitModifiers = Inr m" by blast
  ultimately show "\<exists>rr. calculateResourceRates cfg ts = Inr rr"
    by (simp add: calculateResourceRates_def)
qed

lemma reachable_scannable: "reachable cfg s \<Longrightarrow> scannable cfg (tiles s)"
  using reachable_rates calculate_Inr_iff by blast

lemma scannable_setTile:
  assumes "scannable cfg ts" "isOwned t \<longrightarrow> map_of (BIOMES cfg) (biomeKey (biome t)) \<noteq> None"
  shows "scannable cfg (setTile ts y x t)"
  using assms by (auto simp: scannable_def cellOk_def nth_setTile)

lemma availableBiomes_mem:
  "b \<in> set (availableBiomes cfg) \<longleftrightarrow>
     b \<in> fst ` set (BIOMES cfg) \<and> b \<noteq> ''empty'' \<and> b \<noteq> ''castle'' \<and> b \<noteq> ''grounds''"
  by (auto simp: availableBiomes_def)

lemma random_index:
  assumes "0 \<le> rnd" "rnd < 1" "xs \<noteq> []"
  shows "\<exists>b \<in> set xs. nth_opt xs \<lfloor>rnd * real (length xs)\<rfloor> = Some b"
proof -
  have pos: "0 < real (length xs)" using assms(3) by simp
  have "0 \<le> rnd * real (length xs)" using assms(1) by simp
  then have lo: "0 \<le> \<lfloor>rnd * real (length xs)\<rfloor>" by simp
  have "rnd * real (length xs) < real (length xs)"
    using assms(2) pos by simp
  then have hi: "\<lfloor>rnd * real (length xs)\<rfloor> < int (length xs)"
    by (simp add: floor_less_iff)
  from lo hi have "nat \<lfloor>rnd * real (length xs)\<rfloor> < length xs" by linarith
  then have "xs ! nat \<lfloor>rnd * real (length xs)\<rfloor> \<in> set xs" by (rule nth_mem)
  with lo hi show ?thesis by (simp add: nth_opt_def)
qed

lemma someDirection_scannable:
  assumes "scannable cfg ts"
  shows "someDirection cfg ts x y ds =
     Inr (\<exists>(dx, dy) \<in> set ds. 0 \<le> x + dx \<and> x + dx < int (GRID_SIZE cfg) \<and>
            0 \<le> y + dy \<and> y + dy < int (GRID_HEIGHT cfg) \<and>
            isOwned (ts ! nat (y + dy) ! nat (x + dx)))"
proof (induction ds)
  case Nil
  then show ?case by simp
next
  case (Cons d ds)
  obtain dx dy where d: "d = (dx, dy)" by (cases d)
  show ?case
  proof (cases "0 \<le> x + dx \<and> x + dx < int (GRID_SIZE cfg) \<and> 0 \<le> y + dy \<and> y + dy < int (GRID_HEIGHT cfg)")
    case True
    then have "cellOk cfg ts (nat (y + dy)) (nat (x + dx))"
      using assms by (auto simp: scannable_def)
    then have "tile_at ts (y + dy) (x + dx) = Inr (ts ! nat (y + dy) ! nat (x + dx))"
      using True by (simp add: tile_at_Inr cellOk_def)
    with True Cons.IH show ?thesis by (auto simp: d Let_def)
  next
    case False
    with Cons.IH show ?thesis by (auto simp: d Let_def)
  qed
qed

lemma isAdjacentToOwned_scannable:
  assumes "scannable cfg ts"
  shows "isAdjacentToOwned cfg ts x y = Inr (ownedNeighbour cfg ts x y)"
  unfolding isAdjacentToOwned_def someDirection_scannable[OF assms]
  by (simp add: directions_def ownedNeighbour_def)

lemma tile_at_scannable:
  assumes "scannable cfg ts" "0 \<le> x" "x < int (GRID_SIZE cfg)" "0 \<le> y" "y < int (GRID_HEIGHT cfg)"
  shows "tile_at ts y x = Inr (ts ! nat y ! nat x)"
proof -
  from assms have "cellOk cfg ts (nat y) (nat x)" by (auto simp: scannable_def)
  with assms show ?thesis by (simp add: tile_at_Inr cellOk_def)
qed

lemma buyTile_scannable:
  assumes sc: "scannable cfg (tiles s)"
    and xy: "0 \<le> x" "x < int (GRID_SIZE cfg)" "0 \<le> y" "y < int (GRID_HEIGHT cfg)"
    and rnd: "0 \<le> rnd" "rnd < 1" and av: "availableBiomes cfg \<noteq> []"
  shows "\<exists>s' ok. buyTile cfg rnd x y s = Inr (s', ok) \<and>
     (ok \<longleftrightarrow> \<not> isOwned (tiles s ! nat y ! nat x) \<and> ownedNeighbour cfg (tiles s) x y \<and>
            gold (resources s) \<ge> TILE_PURCHASE_COST cfg) \<and>
     (ok \<longrightarrow> gold (resources s') = gold (resources s) - TILE_PURCHASE_COST cfg \<and>
             isOwned (tiles s' ! nat y ! nat x) \<and>
             (\<exists>b \<in> fst ` set (BIOMES cfg) - {''empty'', ''castle'', ''grounds''}.
                biome (tiles s' ! nat y ! nat x) = Some b))"
proof -
  let ?ts = "tiles s"
  have t: "tile_at ?ts y x = Inr (?ts ! nat y ! nat x)"
    by (rule tile_at_scannable[OF sc xy])
  have adj: "isAdjacentToOwned cfg ?ts x y = Inr (ownedNeighbour cfg ?ts x y)"
    by (rule isAdjacentToOwned_scannable[OF sc])
  have inr: "nat y < length ?ts" "nat x < length (?ts ! nat y)"
    using t by (simp_all add: tile_at_Inr)
  show ?thesis
  proof (cases "\<not> isOwned (?ts ! nat y ! nat x) \<and> ownedNeighbour cfg ?ts x y \<and>
                 gold (resources s) \<ge> TILE_PURCHASE_COST cfg")
    case False
    then have "buyTile cfg rnd x y s = Inr (s, False)"
      by (auto simp: buyTile_def t adj)
    with False show ?thesis by simp
  next
    case True
    from random_index[OF rnd av] obtain b where
      b: "b \<in> set (availableBiomes cfg)"
         "nth_opt (availableBiomes cfg) \<lfloor>rnd * real (length (availableBiomes cfg))\<rfloor> = Some b"
      by blast
    let ?new = "\<lparr>biome = Some b, isOwned = True, level = None, upgradeCost = None\<rparr>"
    let ?nts = "setTile ?ts (nat y) (nat x) ?new"
    from b(1) have cat: "b \<in> fst ` set (BIOMES cfg)" "b \<noteq> ''empty''" "b \<noteq> ''castle''" "b \<noteq> ''grounds''"
      by (simp_all add: availableBiomes_mem)
    then have "map_of (BIOMES cfg) (biomeKey (biome ?new)) \<noteq> None"
      by (simp add: biomeKey_def map_of_eq_None_iff)
    then have "scannable cfg ?nts" using sc by (intro scannable_setTile) simp_all
    then obtain newRates where nr: "calculateResourceRates cfg ?nts = Inr newRates"
      using calculate_Inr_iff by blast
    have "buyTile cfg rnd x y s =
            Inr (s\<lparr>tiles := ?nts,
                   resources := (resources s)\<lparr>gold := gold (resources s) - TILE_PURCHASE_COST cfg\<rparr>,
                   resourceRates := newRates, resourceModifiers := modifiers newRates\<rparr>, True)"
      using True by (simp add: buyTile_def t adj b(2) nr)
    moreover have "?nts ! nat y ! nat x = ?new" using inr by (simp add: nth_setTile)
    ultimately show ?thesis using True cat by auto
  qed
qed

lemma createInitialGrid_castleInv:
  assumes "createInitialGrid cfg = Inr g"
  shows "castleInv cfg g"
proof -
  let ?cy = "GRID_CENTER_Y cfg" and ?cx = "GRID_CENTER_X cfg"
  let ?row = "replicate (GRID_SIZE cfg) emptyTile"
  let ?crow = "if ?cx < GRID_SIZE cfg then ?row[?cx := castleTile cfg] else ?row @ [castleTile cfg]"
  from assms have cy: "?cy < GRID_HEIGHT cfg"
    and g: "g = (replicate (GRID_HEIGHT cfg) ?row)[?cy := ?crow]"
    by (auto simp: createInitialGrid_def Let_def split: if_splits)
  have cx: "\<not> ?cx < GRID_SIZE cfg \<Longrightarrow> GRID_SIZE cfg = 0 \<and> ?cx = 0"
    by (auto simp: GRID_CENTER_X_def)
  have len: "length g = GRID_HEIGHT cfg" by (simp add: g)
  have crow: "g ! ?cy = ?crow" using cy by (simp add: g)
  have other: "\<And>y. y < GRID_HEIGHT cfg \<Longrightarrow> y \<noteq> ?cy \<Longrightarrow> g ! y = ?row" by (simp add: g)
  have centre: "?cx < length ?crow" "?crow ! ?cx = castleTile cfg"
    using cx by (auto simp: nth_append)
  have rest: "\<And>x. x < length ?crow \<Longrightarrow> x \<noteq> ?cx \<Longrightarrow> ?crow ! x = emptyTile"
    using cx by (auto simp: nth_append split: if_splits)
  show ?thesis
    unfolding castleInv_def
  proof (intro conjI allI impI)
    show "?cy < length g" using cy len by simp
    show "?cx < length (g ! ?cy)" using centre(1) crow by simp
    show "isOwned (g ! ?cy ! ?cx)" using centre(2) crow by (simp add: castleTile_def)
  next
    fix y x assume y: "y < length g" and x: "x < length (g ! y)"
    show "biome (g ! y ! x) = Some ''castle'' \<longleftrightarrow> x = ?cx \<and> y = ?cy"
    proof (cases "y = ?cy")
      case True
      show ?thesis
      proof (cases "x = ?cx")
        case True
        with \<open>y = ?cy\<close> centre(2) crow show ?thesis by (simp add: castleTile_def)
      next
        case False
        with \<open>y = ?cy\<close> rest[of x] x crow show ?thesis by (simp add: emptyTile_def)
      qed
    next
      case False
      with other[of y] y len x show ?thesis by (simp add: emptyTile_def)
    qed
  qed
qed

lemma castleInv_setTile:
  assumes "castleInv cfg ts"
    and "y < length ts" "x < length (ts ! y)"
    and "biome t = Some ''castle'' \<longleftrightarrow> biome (ts ! y ! x) = Some ''castle''"
    and "isOwned (ts ! y ! x) \<longrightarrow> isOwned t"
  shows "castleInv cfg (setTile ts y x t)"
  using assms unfolding castleInv_def by (auto simp: nth_setTile)

lemma castleInv_unowned:
  assumes "castleInv cfg ts" "y < length ts" "x < length (ts ! y)" "\<not> isOwned (ts ! y ! x)"
  shows "biome (ts ! y ! x) \<noteq> Some ''castle''"
  using assms unfolding castleInv_def by auto

lemma findCastleRow_Some:
  "findCastleRow ts y xs = Inr (Some (c, cx, cy)) \<Longrightarrow>
     cy = y \<and> cx \<in> set xs \<and> y < length ts \<and> cx < length (ts ! y) \<and> c = ts ! y ! cx \<and>
     biome c = Some ''castle''"
  by (induction xs) (auto simp: tile_at_nat split: if_splits)

lemma findCastle_Some:
  "findCastle cfg ts ys = Inr (Some (c, cx, cy)) \<Longrightarrow>
     cy \<in> set ys \<and> cx < GRID_SIZE cfg \<and> cy < length ts \<and> cx < length (ts ! cy) \<and>
     c = ts ! cy ! cx \<and> biome c = Some ''castle''"
proof (induction ys)
  case Nil
  then show ?case by simp
next
  case (Cons y ys)
  then show ?case
    by (auto split: sum.splits option.splits dest!: findCastleRow_Some)
qed

lemma findCastleRow_Inr:
  "\<forall>x \<in> set xs. cellOk cfg ts y x \<Longrightarrow> \<exists>r. findCastleRow ts y xs = Inr r"
  by (induction xs) (auto simp: tile_at_nat cellOk_def)

lemma findCastle_Inr:
  "\<forall>y \<in> set ys. \<forall>x < GRID_SIZE cfg. cellOk cfg ts y x \<Longrightarrow> \<exists>r. findCastle cfg ts ys = Inr r"
proof (induction ys)
  case Nil
  then show ?case by simp
next
  case (Cons y ys)
  then have "\<forall>x \<in> set [0..<GRID_SIZE cfg]. cellOk cfg ts y x" by simp
  from findCastleRow_Inr[OF this] obtain r where "findCastleRow ts y [0..<GRID_SIZE cfg] = Inr r"
    by blast
  with Cons show ?case by (cases r) auto
qed

lemma nth_opt_Some: "nth_opt xs i = Some b \<Longrightarrow> b \<in> set xs"
  by (auto simp: nth_opt_def split: if_splits)

lemma randomBiome_not_castle:
  "nth_opt (availableBiomes cfg) i \<noteq> Some ''castle''"
proof
  assume "nth_opt (availableBiomes cfg) i = Some ''castle''"
  then have "''castle'' \<in> set (availableBiomes cfg)" by (rule nth_opt_Some)
  then show False by (simp add: availableBiomes_mem)
qed

lemma buyTile_castleInv:
  assumes "castleInv cfg (tiles s)" "buyTile cfg rnd x y s = Inr (s', ok)"
  shows "castleInv cfg (tiles s')"
proof -
  from buyTile_cases[OF assms(2)] show ?thesis
  proof
    assume "\<not> ok \<and> s' = s"
    with assms(1) show ?thesis by simp
  next
    assume "ok \<and> (\<exists>t rb newRates.
            tile_at (tiles s) y x = Inr t \<and> \<not> isOwned t \<and>
            isAdjacentToOwned cfg (tiles s) x y = Inr True \<and>
            \<not> gold (resources s) < TILE_PURCHASE_COST cfg \<and>
            rb = nth_opt (availableBiomes cfg) \<lfloor>rnd * real (length (availableBiomes cfg))\<rfloor> \<and>
            calculateResourceRates cfg
              (setTile (tiles s) (nat y) (nat x)
                 \<lparr>biome = rb, isOwned = True, level = None, upgradeCost = None\<rparr>) = Inr newRates \<and>
            s' = s\<lparr>tiles := setTile (tiles s) (nat y) (nat x)
                               \<lparr>biome = rb, isOwned = True, level = None, upgradeCost = None\<rparr>,
                    resources := (resources s)\<lparr>gold := gold (resources s) - TILE_PURCHASE_COST cfg\<rparr>,
                    resourceRates := newRates,
                    resourceModifiers := modifiers newRates\<rparr>)"
    then obtain t rb where t: "tile_at (tiles s) y x = Inr t" "\<not> isOwned t"
      and rb: "rb = nth_opt (availableBiomes cfg) \<lfloor>rnd * real (length (availableBiomes cfg))\<rfloor>"
      and s': "tiles s' = setTile (tiles s) (nat y) (nat x)
                 \<lparr>biome = rb, isOwned = True, level = None, upgradeCost = None\<rparr>"
      by auto
    from t have rng: "nat y < length (tiles s)" "nat x < length (tiles s ! nat y)"
      and un: "\<not> isOwned (tiles s ! nat y ! nat x)"
      by (simp_all add: tile_at_Inr)
    have "biome (tiles s ! nat y ! nat x) \<noteq> Some ''castle''"
      by (rule castleInv_unowned[OF assms(1) rng un])
    moreover have "rb \<noteq> Some ''castle''" unfolding rb by (rule randomBiome_not_castle)
    ultimately show ?thesis
      unfolding s' using un by (intro castleInv_setTile[OF assms(1) rng]) simp_all
  qed
qed

lemma upgradeCastle_castleInv:
  assumes "castleInv cfg (tiles s)" "upgradeCastle cfg s = Inr (s', ok)"
  shows "castleInv cfg (tiles s')"
proof -
  from upgradeCastle_cases[OF assms(2)] show ?thesis
  proof
    assume "\<not> ok \<and> s' = s"
    with assms(1) show ?thesis by simp
  next
    assume "ok \<and> (\<exists>castle castleX castleY c lvl newRates.
            findCastle cfg (tiles s) [0..<GRID_HEIGHT cfg] = Inr (Some (castle, castleX, castleY)) \<and>
            upgradeCost castle = Some c \<and> level castle = Some lvl \<and> lvl \<noteq> 0 \<and>
            lvl < maxLevel (CASTLE_UPGRADE cfg) \<and>
            canAffordCost (resources s) (Bundle c) \<and>
            calculateResourceRates cfg
              (setTile (tiles s) castleY castleX
                 (castle\<lparr>level := Some (lvl + 1),
                    upgradeCost := nth_opt (upgradeCosts (CASTLE_UPGRADE cfg)) (int lvl)\<rparr>)) = Inr newRates \<and>
            s' = s\<lparr>tiles := setTile (tiles s) castleY castleX
                 (castle\<lparr>level := Some (lvl + 1),
                    upgradeCost := nth_opt (upgradeCosts (CASTLE_UPGRADE cfg)) (int lvl)\<rparr>),
                    resources := deductCost c (resources s),
                    resourceRates := newRates,
                    resourceModifiers := modifiers newRates\<rparr>)"
    then obtain castle castleX castleY lvl where
      f: "findCastle cfg (tiles s) [0..<GRID_HEIGHT cfg] = Inr (Some (castle, castleX, castleY))"
      and s': "tiles s' = setTile (tiles s) castleY castleX
                 (castle\<lparr>level := Some (lvl + 1),
                    upgradeCost := nth_opt (upgradeCosts (CASTLE_UPGRADE cfg)) (int lvl)\<rparr>)"
      by auto
    from findCastle_Some[OF f] have rng: "castleY < length (tiles s)" "castleX < length (tiles s ! castleY)"
      and c: "castle = tiles s ! castleY ! castleX" by simp_all
    show ?thesis
      unfolding s' by (intro castleInv_setTile[OF assms(1) rng]) (simp_all add: c)
  qed
qed

lemma reachable_castleInv: "reachable cfg s \<Longrightarrow> castleInv cfg (tiles s)"
proof (induction rule: reachable.induct)
  case (r_init s)
  then obtain g where "createInitialGrid cfg = Inr g" "tiles s = g"
    by (auto simp: initialState_def split: sum.splits)
  then show ?case using createInitialGrid_castleInv by simp
next
  case (r_buy s rnd x y s' ok)
  then show ?case using buyTile_castleInv by blast
next
  case (r_upgrade s s' ok)
  then show ?case using upgradeCastle_castleInv by blast
next
  case (r_tick s dt)
  then show ?case by (simp add: tick_fields)
qed

text \<open>In a reachable state the search of \<^verbatim>\<open>upgradeCastle\<close> finds the centre tile or no tile.\<close>

lemma reachable_findCastle:
  assumes "reachable cfg s"
  shows "findCastle cfg (tiles s) [0..<GRID_HEIGHT cfg] = Inr None \<or>
         findCastle cfg (tiles s) [0..<GRID_HEIGHT cfg] =
           Inr (Some (tiles s ! GRID_CENTER_Y cfg ! GRID_CENTER_X cfg, GRID_CENTER_X cfg, GRID_CENTER_Y cfg))"
proof -
  have sc: "scannable cfg (tiles s)" by (rule reachable_scannable[OF assms])
  have ci: "castleInv cfg (tiles s)" by (rule reachable_castleInv[OF assms])
  from sc have "\<forall>y \<in> set [0..<GRID_HEIGHT cfg]. \<forall>x < GRID_SIZE cfg. cellOk cfg (tiles s) y x"
    by (simp add: scannable_def)
  from findCastle_Inr[OF this] obtain r where
    r: "findCastle cfg (tiles s) [0..<GRID_HEIGHT cfg] = Inr r" by blast
  show ?thesis
  proof (cases r)
    case None
    with r show ?thesis by simp
  next
    case (Some p)
    obtain c cx cy where p: "p = (c, cx, cy)" by (cases p)
    from findCastle_Some[OF r[unfolded Some p]] ci
    have "cx = GRID_CENTER_X cfg" "cy = GRID_CENTER_Y cfg" "c = tiles s ! cy ! cx"
      by (auto simp: castleInv_def)
    with r Some p show ?thesis by simp
  qed
qed

lemma deductCost_get:
  "get_res (deductCost c rs) r = get_res rs r - sum_list (map snd (filter (\<lambda>e. fst e = r) c))"
  unfolding deductCost_def
  by (induction c arbitrary: rs) (auto simp: get_set_res)

lemma filter_key_distinct:
  "distinct (map fst c) \<Longrightarrow> (r, a) \<in> set c \<Longrightarrow> filter (\<lambda>e. fst e = r) c = [(r, a)]"
proof (induction c)
  case Nil
  then show ?case by simp
next
  case (Cons e c)
  show ?case
  proof (cases "e = (r, a)")
    case True
    with Cons.prems(1) have "\<forall>e' \<in> set c. fst e' \<noteq> r" by force
    then have "filter (\<lambda>e. fst e = r) c = []" by (simp add: filter_empty_conv)
    with True show ?thesis by simp
  next
    case False
    with Cons.prems have mem: "(r, a) \<in> set c" by simp
    then have "r \<in> fst ` set c" by force
    with Cons.prems(1) have "fst e \<noteq> r" by auto
    with Cons.IH mem Cons.prems(1) show ?thesis by simp
  qed
qed

lemma deductCost_named:
  "distinct (map fst c) \<Longrightarrow> (r, a) \<in> set c \<Longrightarrow> get_res (deductCost c rs) r = get_res rs r - a"
  by (simp add: deductCost_get filter_key_distinct)

lemma deductCost_unnamed:
  "r \<notin> fst ` set c \<Longrightarrow> get_res (deductCost c rs) r = get_res rs r"
proof -
  assume "r \<notin> fst ` set c"
  then have "filter (\<lambda>e. fst e = r) c = []" by (auto simp: filter_empty_conv)
  then show ?thesis by (simp add: deductCost_get)
qed

subsection \<open>The first scan of the rate calculator\<close>









subsection \<open>The concrete states are reachable\<close>

lemma ex_init: "initialState ex_cfg = Inr ex_s0"
  by code_simp

lemma ex_reachable: "reachable ex_cfg ex_s0"
  by (rule r_init) (rule ex_init)

lemma ex_upgrade: "upgradeCastle ex_cfg ex_s0 = Inr (ex_s1, True)"
  by code_simp

lemma ex_reachable1: "reachable ex_cfg ex_s1"
  by (rule r_upgrade[OF ex_reachable ex_upgrade])

lemma ex_buy: "buyTile ex_cfg (1 / 2) 1 0 ex_s0 = Inr (ex_s2, True)"
  by code_simp

lemma ex_reachable2: "reachable ex_cfg ex_s2"
  by (rule r_buy[OF ex_reachable _ _ ex_buy]) simp_all

section \<open>The claims\<close>

text \<open>
  Claim C1. In a reachable state, for a coordinate inside the grid, a value of
  \<^verbatim>\<open>Math.random()\<close> in \<open>[0, 1)\<close> and a catalogue with at least one biome other than empty,
  castle and grounds, \<^verbatim>\<open>buyTile(x, y)\<close> returns, and it returns true if and only if the
  target is not owned, one of its four neighbours inside the grid is owned, and gold is at
  least the purchase cost. When it returns true, gold has decreased by exactly the purchase
  cost, the target is owned, and its biome is a key of the catalogue other than empty, castle
  and grounds.
\<close>

theorem buyTile_spec:
  assumes "reachable cfg s"
    and "0 \<le> x" "x < int (GRID_SIZE cfg)" "0 \<le> y" "y < int (GRID_HEIGHT cfg)"
    and "0 \<le> rnd" "rnd < 1" and "availableBiomes cfg \<noteq> []"
  shows "\<exists>s' ok. buyTile cfg rnd x y s = Inr (s', ok) \<and>
     (ok \<longleftrightarrow> \<not> isOwned (tiles s ! nat y ! nat x) \<and> ownedNeighbour cfg (tiles s) x y \<and>
            gold (resources s) \<ge> TILE_PURCHASE_COST cfg) \<and>
     (ok \<longrightarrow> gold (resources s') = gold (resources s) - TILE_PURCHASE_COST cfg \<and>
             isOwned (tiles s' ! nat y ! nat x) \<and>
             (\<exists>b \<in> fst ` set (BIOMES cfg) - {''empty'', ''castle'', ''grounds''}.
                biome (tiles s' ! nat y ! nat x) = Some b))"
  using assms by (intro buyTile_scannable reachable_scannable)

theorem buyTile_spec_witness:
  "buyTile ex_cfg (1 / 2) 1 0 ex_s0 = Inr (ex_s2, True) \<and>
   \<not> isOwned (tiles ex_s0 ! nat 0 ! nat 1) \<and> ownedNeighbour ex_cfg (tiles ex_s0) 1 0 \<and>
   gold (resources ex_s0) \<ge> TILE_PURCHASE_COST ex_cfg \<and>
   gold (resources ex_s2) = gold (resources ex_s0) - TILE_PURCHASE_COST ex_cfg \<and>
   isOwned (tiles ex_s2 ! nat 0 ! nat 1) \<and>
   biome (tiles ex_s2 ! nat 0 ! nat 1) \<in>
     Some ` (fst ` set (BIOMES ex_cfg) - {''empty'', ''castle'', ''grounds''})"
proof -
  have x: "(1::int) < int (GRID_SIZE ex_cfg)" and y: "(0::int) < int (GRID_HEIGHT ex_cfg)"
    by (simp_all add: ex_cfg_def)
  have av: "availableBiomes ex_cfg \<noteq> []" by code_simp
  have "\<exists>s' ok. buyTile ex_cfg (1 / 2) 1 0 ex_s0 = Inr (s', ok) \<and>
     (ok \<longleftrightarrow> \<not> isOwned (tiles ex_s0 ! nat 0 ! nat 1) \<and> ownedNeighbour ex_cfg (tiles ex_s0) 1 0 \<and>
            gold (resources ex_s0) \<ge> TILE_PURCHASE_COST ex_cfg) \<and>
     (ok \<longrightarrow> gold (resources s') = gold (resources ex_s0) - TILE_PURCHASE_COST ex_cfg \<and>
             isOwned (tiles s' ! nat 0 ! nat 1) \<and>
             (\<exists>b \<in> fst ` set (BIOMES ex_cfg) - {''empty'', ''castle'', ''grounds''}.
                biome (tiles s' ! nat 0 ! nat 1) = Some b))"
    by (rule buyTile_spec[OF ex_reachable _ x _ y _ _ av]) simp_all
  then show ?thesis unfolding ex_buy by auto
qed

text \<open>
  Claim C2. Whenever \<^verbatim>\<open>upgradeCastle()\<close> returns true, the tile its search found is a
  castle with a level and a stored upgrade cost; afterwards the tile at that place is the
  castle with the level incremented by exactly 1 and with the catalogue's cost for the new
  level (\<^verbatim>\<open>upgradeCosts[newLevel - 1]\<close>, as \<^verbatim>\<open>upgradeCosts[0]\<close> is the cost stored at level 1)
  or no cost when the catalogue has none. When the catalogue lists one cost for each level
  below the maximum, the new cost is absent exactly when the new level is the maximum. Each
  resource named in the stored cost (an object names a key once) has decreased by exactly its
  amount, and every resource not named is unchanged. In a reachable state the tile found is
  the centre tile.
\<close>

theorem upgradeCastle_success:
  assumes "upgradeCastle cfg s = Inr (s', True)"
  shows "\<exists>castle cx cy lvl c.
     findCastle cfg (tiles s) [0..<GRID_HEIGHT cfg] = Inr (Some (castle, cx, cy)) \<and>
     castle = tiles s ! cy ! cx \<and> biome castle = Some ''castle'' \<and>
     level castle = Some lvl \<and> upgradeCost castle = Some c \<and>
     biome (tiles s' ! cy ! cx) = Some ''castle'' \<and>
     level (tiles s' ! cy ! cx) = Some (lvl + 1) \<and>
     upgradeCost (tiles s' ! cy ! cx) =
       nth_opt (upgradeCosts (CASTLE_UPGRADE cfg)) (int (lvl + 1) - 1) \<and>
     (length (upgradeCosts (CASTLE_UPGRADE cfg)) = maxLevel (CASTLE_UPGRADE cfg) - 1 \<longrightarrow>
        upgradeCost (tiles s' ! cy ! cx) =
          (if lvl + 1 = maxLevel (CASTLE_UPGRADE cfg) then None
           else Some (upgradeCosts (CASTLE_UPGRADE cfg) ! lvl))) \<and>
     (distinct (map fst c) \<longrightarrow>
        (\<forall>(r, a) \<in> set c. get_res (resources s') r = get_res (resources s) r - a)) \<and>
     (\<forall>r. r \<notin> fst ` set c \<longrightarrow> get_res (resources s') r = get_res (resources s) r) \<and>
     (reachable cfg s \<longrightarrow> cx = GRID_CENTER_X cfg \<and> cy = GRID_CENTER_Y cfg)"
proof -
  from upgradeCastle_cases[OF assms] obtain castle cx cy c lvl newRates where
    f: "findCastle cfg (tiles s) [0..<GRID_HEIGHT cfg] = Inr (Some (castle, cx, cy))"
    and c: "upgradeCost castle = Some c" and l: "level castle = Some lvl"
    and lt: "lvl < maxLevel (CASTLE_UPGRADE cfg)"
    and s': "s' = s\<lparr>tiles := setTile (tiles s) cy cx
                 (castle\<lparr>level := Some (lvl + 1),
                    upgradeCost := nth_opt (upgradeCosts (CASTLE_UPGRADE cfg)) (int lvl)\<rparr>),
                    resources := deductCost c (resources s),
                    resourceRates := newRates,
                    resourceModifiers := modifiers newRates\<rparr>"
    by auto
  from findCastle_Some[OF f] have rng: "cy < length (tiles s)" "cx < length (tiles s ! cy)"
    and ceq: "castle = tiles s ! cy ! cx" and bio: "biome castle = Some ''castle''" by blast+
  have new: "tiles s' ! cy ! cx =
      castle\<lparr>level := Some (lvl + 1),
             upgradeCost := nth_opt (upgradeCosts (CASTLE_UPGRADE cfg)) (int lvl)\<rparr>"
    using rng by (simp add: s' nth_setTile)
  have res: "resources s' = deductCost c (resources s)" by (simp add: s')
  have maxc: "length (upgradeCosts (CASTLE_UPGRADE cfg)) = maxLevel (CASTLE_UPGRADE cfg) - 1 \<longrightarrow>
        upgradeCost (tiles s' ! cy ! cx) =
          (if lvl + 1 = maxLevel (CASTLE_UPGRADE cfg) then None
           else Some (upgradeCosts (CASTLE_UPGRADE cfg) ! lvl))"
    using lt by (auto simp: new nth_opt_def)
  have named: "distinct (map fst c) \<longrightarrow>
        (\<forall>(r, a) \<in> set c. get_res (resources s') r = get_res (resources s) r - a)"
    by (auto simp: res deductCost_named)
  have unnamed: "\<forall>r. r \<notin> fst ` set c \<longrightarrow> get_res (resources s') r = get_res (resources s) r"
    by (simp add: res deductCost_unnamed)
  have centre: "reachable cfg s \<longrightarrow> cx = GRID_CENTER_X cfg \<and> cy = GRID_CENTER_Y cfg"
  proof
    assume "reachable cfg s"
    from reachable_castleInv[OF this] rng bio ceq
    show "cx = GRID_CENTER_X cfg \<and> cy = GRID_CENTER_Y cfg"
      by (auto simp: castleInv_def)
  qed
  show ?thesis
    using f ceq bio l c maxc named unnamed centre by (simp add: new)
qed

theorem upgradeCastle_success_witness:
  "upgradeCastle ex_cfg ex_s0 = Inr (ex_s1, True) \<and>
   level (tiles ex_s0 ! 1 ! 1) = Some 1 \<and>
   level (tiles ex_s1 ! 1 ! 1) = Some (1 + 1) \<and>
   upgradeCost (tiles ex_s1 ! 1 ! 1) = Some (upgradeCosts (CASTLE_UPGRADE ex_cfg) ! 1) \<and>
   get_res (resources ex_s1) Gold = get_res (resources ex_s0) Gold - 50 \<and>
   get_res (resources ex_s1) Wood = get_res (resources ex_s0) Wood - 10 \<and>
   get_res (resources ex_s1) Stone = get_res (resources ex_s0) Stone"
proof -
  have f: "findCastle ex_cfg (tiles ex_s0) [0..<GRID_HEIGHT ex_cfg] =
             Inr (Some (castleTile ex_cfg, 1, 1))"
    by code_simp
  have l: "level (castleTile ex_cfg) = Some 1"
    and c: "upgradeCost (castleTile ex_cfg) = Some [(Gold, 50), (Wood, 10)]"
    and n: "length (upgradeCosts (CASTLE_UPGRADE ex_cfg)) = maxLevel (CASTLE_UPGRADE ex_cfg) - 1"
    and m: "1 + 1 \<noteq> maxLevel (CASTLE_UPGRADE ex_cfg)"
    by code_simp+
  from upgradeCastle_success[OF ex_upgrade] f l c n m
  have "level (tiles ex_s0 ! 1 ! 1) = Some 1 \<and>
        level (tiles ex_s1 ! 1 ! 1) = Some (1 + 1) \<and>
        upgradeCost (tiles ex_s1 ! 1 ! 1) = Some (upgradeCosts (CASTLE_UPGRADE ex_cfg) ! 1) \<and>
        (\<forall>(r, a) \<in> set [(Gold, 50), (Wood, 10)].
            get_res (resources ex_s1) r = get_res (resources ex_s0) r - a) \<and>
        (\<forall>r. r \<notin> fst ` set [(Gold, 50::real), (Wood, 10)] \<longrightarrow>
            get_res (resources ex_s1) r = get_res (resources ex_s0) r)"
    by auto
  note a = this
  from a[THEN conjunct2, THEN conjunct2, THEN conjunct2, THEN conjunct2, THEN spec, of Stone]
  have st: "get_res (resources ex_s1) Stone = get_res (resources ex_s0) Stone" by simp
  from a st ex_upgrade show ?thesis by simp
qed

text \<open>
  Claim C3. Whenever the rate calculator returns \<open>{base, modifiers, total}\<close>, each
  \<open>total[r]\<close> is \<open>base[r] * modifiers[r]\<close>; and the identity holds of the stored
  \<open>resourceRates\<close> of every reachable state, that is after initialisation and after every
  \<^verbatim>\<open>buyTile\<close>, \<^verbatim>\<open>upgradeCastle\<close> and \<^verbatim>\<open>tick\<close>.
\<close>

theorem total_is_base_times_modifiers:
  "(calculateResourceRates cfg ts = Inr rr \<longrightarrow>
      (\<forall>r. get_res (total rr) r = get_res (base rr) r * get_res (modifiers rr) r)) \<and>
   (reachable cfg s \<longrightarrow>
      (\<forall>r. get_res (total (resourceRates s)) r =
            get_res (base (resourceRates s)) r * get_res (modifiers (resourceRates s)) r))"
  using total_of_calculate reachable_rates by blast

theorem total_is_base_times_modifiers_witness:
  "calculateResourceRates ex_cfg (tiles ex_s1) = Inr (resourceRates ex_s1) \<and>
   reachable ex_cfg ex_s1 \<and>
   (\<forall>r. get_res (total (resourceRates ex_s1)) r =
        get_res (base (resourceRates ex_s1)) r * get_res (modifiers (resourceRates ex_s1)) r)"
proof -
  have c: "calculateResourceRates ex_cfg (tiles ex_s1) = Inr (resourceRates ex_s1)"
    by code_simp
  from total_is_base_times_modifiers[of ex_cfg "tiles ex_s1" "resourceRates ex_s1" ex_s1]
    c ex_reachable1
  show ?thesis by blast
qed




text \<open>
  Claim C5. \<^verbatim>\<open>tick(deltaTime)\<close> adds exactly \<open>total[r] * (deltaTime / 1000)\<close> of the stored rates
  to every resource \<open>r\<close>, with no clamping; \<^verbatim>\<open>tick(1000)\<close> adds exactly \<open>total[r]\<close>, and
  \<^verbatim>\<open>tick(0)\<close> leaves the resources unchanged.
\<close>

theorem tick_adds_rates:
  "get_res (resources (tick deltaTime s)) r =
     get_res (resources s) r + get_res (total (resourceRates s)) r * (deltaTime / 1000) \<and>
   get_res (resources (tick 1000 s)) r = get_res (resources s) r + get_res (total (resourceRates s)) r \<and>
   resources (tick 0 s) = resources s"
proof -
  have "resources (tick 0 s) = resources s"
    by (simp add: tick_def Let_def entries_def)
  then show ?thesis by (simp add: tick_resources)
qed

text \<open>
  Claim C6. In a reachable state, \<^verbatim>\<open>buyTile(x, y)\<close> at a coordinate inside the grid returns
  false and leaves the state as it is when the target is owned, or none of its four neighbours
  inside the grid is owned, or gold is below the purchase cost; \<^verbatim>\<open>upgradeCastle()\<close> returns
  false and leaves the state as it is when the level of the castle has reached the maximum or
  some resource of its stored upgrade cost is insufficient. Whenever either operation
  returns false, the state is unchanged.
\<close>

theorem failure_leaves_state_unchanged:
  assumes "reachable cfg s"
  shows "(0 \<le> x \<and> x < int (GRID_SIZE cfg) \<and> 0 \<le> y \<and> y < int (GRID_HEIGHT cfg) \<and>
          (isOwned (tiles s ! nat y ! nat x) \<or> \<not> ownedNeighbour cfg (tiles s) x y \<or>
           gold (resources s) < TILE_PURCHASE_COST cfg)
          \<longrightarrow> buyTile cfg rnd x y s = Inr (s, False)) \<and>
         ((\<exists>l. level (tiles s ! GRID_CENTER_Y cfg ! GRID_CENTER_X cfg) = Some l \<and>
               l \<ge> maxLevel (CASTLE_UPGRADE cfg)) \<or>
          (\<exists>c. upgradeCost (tiles s ! GRID_CENTER_Y cfg ! GRID_CENTER_X cfg) = Some c \<and>
               (\<exists>(r, a) \<in> set c. get_res (resources s) r < a))
          \<longrightarrow> upgradeCastle cfg s = Inr (s, False)) \<and>
         (buyTile cfg rnd x y s = Inr (s', False) \<longrightarrow> s' = s) \<and>
         (upgradeCastle cfg s = Inr (s'', False) \<longrightarrow> s'' = s)"
proof (intro conjI impI)
  assume a: "0 \<le> x \<and> x < int (GRID_SIZE cfg) \<and> 0 \<le> y \<and> y < int (GRID_HEIGHT cfg) \<and>
          (isOwned (tiles s ! nat y ! nat x) \<or> \<not> ownedNeighbour cfg (tiles s) x y \<or>
           gold (resources s) < TILE_PURCHASE_COST cfg)"
  have sc: "scannable cfg (tiles s)" by (rule reachable_scannable[OF assms])
  have t: "tile_at (tiles s) y x = Inr (tiles s ! nat y ! nat x)"
    using a by (intro tile_at_scannable[OF sc]) simp_all
  have adj: "isAdjacentToOwned cfg (tiles s) x y = Inr (ownedNeighbour cfg (tiles s) x y)"
    by (rule isAdjacentToOwned_scannable[OF sc])
  from a show "buyTile cfg rnd x y s = Inr (s, False)"
    by (auto simp: buyTile_def t adj)
next
  let ?castle = "tiles s ! GRID_CENTER_Y cfg ! GRID_CENTER_X cfg"
  assume a: "(\<exists>l. level ?castle = Some l \<and> l \<ge> maxLevel (CASTLE_UPGRADE cfg)) \<or>
          (\<exists>c. upgradeCost ?castle = Some c \<and> (\<exists>(r, a) \<in> set c. get_res (resources s) r < a))"
  from reachable_findCastle[OF assms]
  show "upgradeCastle cfg s = Inr (s, False)"
  proof
    assume "findCastle cfg (tiles s) [0..<GRID_HEIGHT cfg] = Inr None"
    then show ?thesis by (simp add: upgradeCastle_def)
  next
    assume f: "findCastle cfg (tiles s) [0..<GRID_HEIGHT cfg] =
                 Inr (Some (?castle, GRID_CENTER_X cfg, GRID_CENTER_Y cfg))"
    from a show ?thesis
    proof
      assume "\<exists>l. level ?castle = Some l \<and> l \<ge> maxLevel (CASTLE_UPGRADE cfg)"
      then show ?thesis
        by (auto simp: upgradeCastle_def f split: option.splits)
    next
      assume "\<exists>c. upgradeCost ?castle = Some c \<and> (\<exists>(r, a) \<in> set c. get_res (resources s) r < a)"
      then obtain c r a where c: "upgradeCost ?castle = Some c" and "(r, a) \<in> set c"
        "get_res (resources s) r < a" by auto
      then have "\<not> canAffordCost (resources s) (Bundle c)"
        by (force simp: list_all_iff)
      with c show ?thesis
        by (auto simp: upgradeCastle_def f split: option.splits)
    qed
  qed
next
  assume "buyTile cfg rnd x y s = Inr (s', False)"
  from buyTile_cases[OF this] show "s' = s" by simp
next
  assume "upgradeCastle cfg s = Inr (s'', False)"
  from upgradeCastle_cases[OF this] show "s'' = s" by simp
qed

theorem failure_leaves_state_unchanged_witness:
  "buyTile ex_cfg (1 / 2) 0 0 ex_s1 = Inr (ex_s1, False) \<and>
   upgradeCastle ex_cfg ex_s1 = Inr (ex_s1, False)"
proof -
  have b: "(0::int) < int (GRID_SIZE ex_cfg)" "(0::int) < int (GRID_HEIGHT ex_cfg)"
    by (simp_all add: ex_cfg_def)
  have n: "\<not> ownedNeighbour ex_cfg (tiles ex_s1) 0 0" by code_simp
  have c: "upgradeCost (tiles ex_s1 ! GRID_CENTER_Y ex_cfg ! GRID_CENTER_X ex_cfg) =
             Some [(Gold, 500), (Stone, 100)]" by code_simp
  have g: "get_res (resources ex_s1) Gold < 500" by code_simp
  from c g have u: "\<exists>c. upgradeCost (tiles ex_s1 ! GRID_CENTER_Y ex_cfg ! GRID_CENTER_X ex_cfg) = Some c \<and>
               (\<exists>(r, a) \<in> set c. get_res (resources ex_s1) r < a)"
    by auto
  from failure_leaves_state_unchanged[OF ex_reachable1, of 0 0 "1 / 2" ex_s1 ex_s1] b n u
  show ?thesis by simp
qed

text \<open>
  Claim C7. In every state reachable from initialisation by \<^verbatim>\<open>buyTile\<close>,
  \<^verbatim>\<open>upgradeCastle\<close> and \<^verbatim>\<open>tick\<close>, the tile at the centre of the grid exists, is a castle and
  is owned, and every castle tile of the grid is that tile.
\<close>

theorem one_owned_castle_at_centre:
  assumes "reachable cfg s"
  shows "GRID_CENTER_Y cfg < length (tiles s) \<and>
         GRID_CENTER_X cfg < length (tiles s ! GRID_CENTER_Y cfg) \<and>
         biome (tiles s ! GRID_CENTER_Y cfg ! GRID_CENTER_X cfg) = Some ''castle'' \<and>
         isOwned (tiles s ! GRID_CENTER_Y cfg ! GRID_CENTER_X cfg) \<and>
         (\<forall>y < length (tiles s). \<forall>x < length (tiles s ! y).
            biome (tiles s ! y ! x) = Some ''castle'' \<longrightarrow>
            x = GRID_CENTER_X cfg \<and> y = GRID_CENTER_Y cfg)"
  using reachable_castleInv[OF assms] unfolding castleInv_def by auto

theorem one_owned_castle_at_centre_witness:
  "reachable ex_cfg ex_s2 \<and>
   GRID_CENTER_Y ex_cfg < length (tiles ex_s2) \<and>
   GRID_CENTER_X ex_cfg < length (tiles ex_s2 ! GRID_CENTER_Y ex_cfg) \<and>
   biome (tiles ex_s2 ! GRID_CENTER_Y ex_cfg ! GRID_CENTER_X ex_cfg) = Some ''castle'' \<and>
   isOwned (tiles ex_s2 ! GRID_CENTER_Y ex_cfg ! GRID_CENTER_X ex_cfg) \<and>
   biome (tiles ex_s2 ! 0 ! 1) \<noteq> Some ''castle''"
proof -
  have rng: "0 < length (tiles ex_s2)" "1 < length (tiles ex_s2 ! 0)" by code_simp+
  have off: "0 \<noteq> GRID_CENTER_Y ex_cfg" by code_simp
  from one_owned_castle_at_centre[OF ex_reachable2] ex_reachable2 rng off
  show ?thesis by blast
qed

text \<open>
  Claim C8. Ownership never reverts: a tile of the grid that is owned is still a tile of the
  grid and still owned in the state that \<^verbatim>\<open>buyTile\<close>, \<^verbatim>\<open>upgradeCastle\<close> or \<^verbatim>\<open>tick\<close>
  commits, whatever the operation returns.
\<close>

theorem ownership_never_reverts:
  assumes "y < length (tiles s)" "x < length (tiles s ! y)" "isOwned (tiles s ! y ! x)"
  shows "(buyTile cfg rnd bx by s = Inr (s', ok) \<longrightarrow>
            y < length (tiles s') \<and> x < length (tiles s' ! y) \<and> isOwned (tiles s' ! y ! x)) \<and>
         (upgradeCastle cfg s = Inr (s'', ok') \<longrightarrow>
            y < length (tiles s'') \<and> x < length (tiles s'' ! y) \<and> isOwned (tiles s'' ! y ! x)) \<and>
         (y < length (tiles (tick deltaTime s)) \<and> x < length (tiles (tick deltaTime s) ! y) \<and>
          isOwned (tiles (tick deltaTime s) ! y ! x))"
proof (intro conjI impI)
  assume "buyTile cfg rnd bx by s = Inr (s', ok)"
  from buyTile_cases[OF this] assms
  show "y < length (tiles s')" "x < length (tiles s' ! y)" "isOwned (tiles s' ! y ! x)"
    by (auto simp: nth_setTile)
next
  assume "upgradeCastle cfg s = Inr (s'', ok')"
  from upgradeCastle_cases[OF this]
  have "s'' = s \<or> (\<exists>cx cy t. tiles s'' = setTile (tiles s) cy cx t \<and>
           isOwned t = isOwned (tiles s ! cy ! cx))"
  proof
    assume "\<not> ok' \<and> s'' = s"
    then show ?thesis by simp
  next
    assume "ok' \<and> (\<exists>castle castleX castleY c lvl newRates.
            findCastle cfg (tiles s) [0..<GRID_HEIGHT cfg] = Inr (Some (castle, castleX, castleY)) \<and>
            upgradeCost castle = Some c \<and> level castle = Some lvl \<and> lvl \<noteq> 0 \<and>
            lvl < maxLevel (CASTLE_UPGRADE cfg) \<and>
            canAffordCost (resources s) (Bundle c) \<and>
            calculateResourceRates cfg
              (setTile (tiles s) castleY castleX
                 (castle\<lparr>level := Some (lvl + 1),
                    upgradeCost := nth_opt (upgradeCosts (CASTLE_UPGRADE cfg)) (int lvl)\<rparr>)) = Inr newRates \<and>
            s'' = s\<lparr>tiles := setTile (tiles s) castleY castleX
                 (castle\<lparr>level := Some (lvl + 1),
                    upgradeCost := nth_opt (upgradeCosts (CASTLE_UPGRADE cfg)) (int lvl)\<rparr>),
                    resources := deductCost c (resources s),
                    resourceRates := newRates,
                    resourceModifiers := modifiers newRates\<rparr>)"
    then obtain castle cx cy lvl where
      f: "findCastle cfg (tiles s) [0..<GRID_HEIGHT cfg] = Inr (Some (castle, cx, cy))"
      and t: "tiles s'' = setTile (tiles s) cy cx
                 (castle\<lparr>level := Some (lvl + 1),
                    upgradeCost := nth_opt (upgradeCosts (CASTLE_UPGRADE cfg)) (int lvl)\<rparr>)"
      by auto
    from findCastle_Some[OF f] have "castle = tiles s ! cy ! cx" by simp
    then have "isOwned (castle\<lparr>level := Some (lvl + 1),
                    upgradeCost := nth_opt (upgradeCosts (CASTLE_UPGRADE cfg)) (int lvl)\<rparr>) =
               isOwned (tiles s ! cy ! cx)" by simp
    with t show ?thesis by blast
  qed
  with assms
  show "y < length (tiles s'')" "x < length (tiles s'' ! y)" "isOwned (tiles s'' ! y ! x)"
    by (auto simp: nth_setTile)
next
  from assms
  show "y < length (tiles (tick deltaTime s))" "x < length (tiles (tick deltaTime s) ! y)"
    "isOwned (tiles (tick deltaTime s) ! y ! x)"
    by (simp_all add: tick_fields)
qed

theorem ownership_never_reverts_witness:
  "isOwned (tiles ex_s0 ! 1 ! 1) \<and>
   buyTile ex_cfg (1 / 2) 1 0 ex_s0 = Inr (ex_s2, True) \<and> isOwned (tiles ex_s2 ! 1 ! 1) \<and>
   upgradeCastle ex_cfg ex_s0 = Inr (ex_s1, True) \<and> isOwned (tiles ex_s1 ! 1 ! 1) \<and>
   isOwned (tiles (tick 500 ex_s0) ! 1 ! 1)"
proof -
  have h: "1 < length (tiles ex_s0)" "1 < length (tiles ex_s0 ! 1)" "isOwned (tiles ex_s0 ! 1 ! 1)"
    by code_simp+
  from ownership_never_reverts[OF h, of ex_cfg "1 / 2" 1 0 ex_s2 True ex_s1 True 500]
    h ex_buy ex_upgrade
  show ?thesis by blast
qed

text \<open>
  Claim C9. \<^verbatim>\<open>tick\<close> changes the resources only: the grid, the stored rates and the stored
  modifiers are as before.
\<close>

theorem tick_frame:
  "tiles (tick deltaTime s) = tiles s \<and> resourceRates (tick deltaTime s) = resourceRates s \<and>
   resourceModifiers (tick deltaTime s) = resourceModifiers s"
  by (simp add: tick_fields)

text \<open>
  Claim C10. A successful operation changes at most one cell and no dimension of the grid:
  after \<^verbatim>\<open>buyTile(x, y)\<close> returned true every tile other than \<open>(x, y)\<close> is unchanged, and
  after \<^verbatim>\<open>upgradeCastle()\<close> returned true every tile other than the castle tile its search
  found is unchanged.
\<close>

theorem one_cell_changes:
  "(buyTile cfg rnd x y s = Inr (s', True) \<longrightarrow>
      0 \<le> x \<and> 0 \<le> y \<and> length (tiles s') = length (tiles s) \<and>
      (\<forall>y' < length (tiles s). length (tiles s' ! y') = length (tiles s ! y') \<and>
         (\<forall>x' < length (tiles s ! y'). (x', y') \<noteq> (nat x, nat y) \<longrightarrow>
            tiles s' ! y' ! x' = tiles s ! y' ! x'))) \<and>
   (upgradeCastle cfg s = Inr (s'', True) \<longrightarrow>
      (\<exists>castle cx cy.
         findCastle cfg (tiles s) [0..<GRID_HEIGHT cfg] = Inr (Some (castle, cx, cy)) \<and>
         length (tiles s'') = length (tiles s) \<and>
         (\<forall>y' < length (tiles s). length (tiles s'' ! y') = length (tiles s ! y') \<and>
            (\<forall>x' < length (tiles s ! y'). (x', y') \<noteq> (cx, cy) \<longrightarrow>
               tiles s'' ! y' ! x' = tiles s ! y' ! x'))))"
proof (rule conjI; rule impI)
  assume "buyTile cfg rnd x y s = Inr (s', True)"
  from buyTile_cases[OF this] obtain t new where
    t: "tile_at (tiles s) y x = Inr t" and s': "tiles s' = setTile (tiles s) (nat y) (nat x) new"
    by auto
  from t have "0 \<le> x" "0 \<le> y" by (simp_all add: tile_at_Inr)
  then show "0 \<le> x \<and> 0 \<le> y \<and> length (tiles s') = length (tiles s) \<and>
      (\<forall>y' < length (tiles s). length (tiles s' ! y') = length (tiles s ! y') \<and>
         (\<forall>x' < length (tiles s ! y'). (x', y') \<noteq> (nat x, nat y) \<longrightarrow>
            tiles s' ! y' ! x' = tiles s ! y' ! x'))"
    by (auto simp: s' nth_setTile)
next
  assume "upgradeCastle cfg s = Inr (s'', True)"
  from upgradeCastle_cases[OF this] obtain castle cx cy new where
    f: "findCastle cfg (tiles s) [0..<GRID_HEIGHT cfg] = Inr (Some (castle, cx, cy))"
    and s'': "tiles s'' = setTile (tiles s) cy cx new"
    by auto
  have "length (tiles s'') = length (tiles s) \<and>
         (\<forall>y' < length (tiles s). length (tiles s'' ! y') = length (tiles s ! y') \<and>
            (\<forall>x' < length (tiles s ! y'). (x', y') \<noteq> (cx, cy) \<longrightarrow>
               tiles s'' ! y' ! x' = tiles s ! y' ! x'))"
    by (auto simp: s'' nth_setTile)
  with f show "\<exists>castle cx cy.
         findCastle cfg (tiles s) [0..<GRID_HEIGHT cfg] = Inr (Some (castle, cx, cy)) \<and>
         length (tiles s'') = length (tiles s) \<and>
         (\<forall>y' < length (tiles s). length (tiles s'' ! y') = length (tiles s ! y') \<and>
            (\<forall>x' < length (tiles s ! y'). (x', y') \<noteq> (cx, cy) \<longrightarrow>
               tiles s'' ! y' ! x' = tiles s ! y' ! x'))"
    by blast
qed

theorem one_cell_changes_witness:
  "buyTile ex_cfg (1 / 2) 1 0 ex_s0 = Inr (ex_s2, True) \<and>
   length (tiles ex_s2) = length (tiles ex_s0) \<and>
   length (tiles ex_s2 ! 0) = length (tiles ex_s0 ! 0) \<and>
   tiles ex_s2 ! 0 ! 0 = tiles ex_s0 ! 0 ! 0 \<and>
   tiles ex_s2 ! 1 ! 1 = tiles ex_s0 ! 1 ! 1 \<and>
   upgradeCastle ex_cfg ex_s0 = Inr (ex_s1, True) \<and>
   length (tiles ex_s1) = length (tiles ex_s0) \<and>
   length (tiles ex_s1 ! 1) = length (tiles ex_s0 ! 1) \<and>
   tiles ex_s1 ! 0 ! 1 = tiles ex_s0 ! 0 ! 1 \<and>
   tiles ex_s1 ! 1 ! 0 = tiles ex_s0 ! 1 ! 0"
proof -
  have rng: "0 < length (tiles ex_s0)" "1 < length (tiles ex_s0)"
    "0 < length (tiles ex_s0 ! 0)" "1 < length (tiles ex_s0 ! 0)"
    "0 < length (tiles ex_s0 ! 1)" "1 < length (tiles ex_s0 ! 1)"
    by code_simp+
  have f: "findCastle ex_cfg (tiles ex_s0) [0..<GRID_HEIGHT ex_cfg] =
             Inr (Some (castleTile ex_cfg, 1, 1))"
    by code_simp
  note t = one_cell_changes[of ex_cfg "1 / 2" 1 0 ex_s0 ex_s2 ex_s1]
  from t ex_buy have b: "length (tiles ex_s2) = length (tiles ex_s0)"
    "\<forall>y' < length (tiles ex_s0). length (tiles ex_s2 ! y') = length (tiles ex_s0 ! y') \<and>
       (\<forall>x' < length (tiles ex_s0 ! y'). (x', y') \<noteq> (nat 1, nat 0) \<longrightarrow>
          tiles ex_s2 ! y' ! x' = tiles ex_s0 ! y' ! x')"
    by blast+
  from t ex_upgrade f have u: "length (tiles ex_s1) = length (tiles ex_s0)"
    "\<forall>y' < length (tiles ex_s0). length (tiles ex_s1 ! y') = length (tiles ex_s0 ! y') \<and>
       (\<forall>x' < length (tiles ex_s0 ! y'). (x', y') \<noteq> (1, 1) \<longrightarrow>
          tiles ex_s1 ! y' ! x' = tiles ex_s0 ! y' ! x')"
    by auto
  from b(2) rng have "length (tiles ex_s2 ! 0) = length (tiles ex_s0 ! 0)"
    "tiles ex_s2 ! 0 ! 0 = tiles ex_s0 ! 0 ! 0" "tiles ex_s2 ! 1 ! 1 = tiles ex_s0 ! 1 ! 1"
    by auto
  moreover from u(2) rng have "length (tiles ex_s1 ! 1) = length (tiles ex_s0 ! 1)"
    "tiles ex_s1 ! 0 ! 1 = tiles ex_s0 ! 0 ! 1" "tiles ex_s1 ! 1 ! 0 = tiles ex_s0 ! 1 ! 0"
    by auto
  ultimately show ?thesis using b(1) u(1) ex_buy ex_upgrade by simp
qed

end
